theory Spec2Isabelle
  imports Main "HOL-Library.Char_ord" "HOL-Library.List_Lexorder"
begin

section \<open>Values, dictionaries and HTTP errors\<close>

text \<open>
  The handlers of \<^verbatim>\<open>src/app/main_apprunner.py\<close> receive and return JSON. A Python
  \<^verbatim>\<open>Dict[str, Any]\<close> is a map from strings to JSON values, a
  \<^verbatim>\<open>Dict[str, str]\<close> a map from strings to strings. The small dictionaries the
  handlers build with string values only (the responses, the event detail) are kept as
  association lists in the order of the source's dict literal.
\<close>

datatype json =
    JNull
  | JBool bool
  | JNum int
  | JStr string
  | JArr "json list"
  | JObj "(string \<times> json) list"

type_synonym item = "string \<rightharpoonup> json"

text \<open>\<^verbatim>\<open>HTTPException(status_code=..., detail=...)\<close>\<close>

datatype http_exception = HTTPException (status_code: nat) (detail: string)

text \<open>The module-level constants read from the process environment.\<close>

record config =
  TABLE_NAME :: string
  EVENT_BUS_NAME :: string
  S3_BUCKET :: string

section \<open>The world outside the process\<close>

text \<open>
  What one request observes from outside: the value of \<^verbatim>\<open>str(uuid.uuid4())\<close>, the
  value of \<^verbatim>\<open>datetime.utcnow().isoformat()\<close> (each handler reads each at most
  once), and for each of the three SDK clients whether its call raises in this request,
  with the exception's message. \<open>repr\<close> is what Python's string formatting prints for
  a JSON value that is not a string.
\<close>

record env =
  uuid4 :: string
  utcnow :: string
  dynamodb_exc :: "string option"
  eventbridge_exc :: "string option"
  s3_exc :: "string option"
  repr :: "json \<Rightarrow> string"

text \<open>One entry of \<^verbatim>\<open>eventbridge.put_events(Entries=[...])\<close>. \<open>Detail\<close> holds
  the dictionary that the source serialises with \<^verbatim>\<open>json.dumps\<close>.\<close>

record entry =
  Source :: string
  DetailType :: string
  Detail :: "(string \<times> string) list"
  EventBusName :: string

datatype sdk_call = PutItem | Query | UpdateItem | Scan | PutEvents | PutObject

text \<open>
  The state of the three services. \<open>table\<close> is the content of the table named
  \<open>TABLE_NAME\<close>, addressed by the composite key (pk, sk); \<open>bus\<close> the entries
  published so far; \<open>objects\<close> the object store, addressed by (bucket, key), each
  object with its body (the dictionary the source serialises) and content type;
  \<open>calls\<close> the SDK calls attempted so far, in order.
\<close>

record world =
  table :: "((string \<times> string) \<times> item) list"
  bus :: "entry list"
  objects :: "((string \<times> string) \<times> (item \<times> string)) list"
  calls :: "sdk_call list"

definition log_call :: "sdk_call \<Rightarrow> world \<Rightarrow> world" where
  "log_call c w = w\<lparr>calls := calls w @ [c]\<rparr>"

text \<open>Writing under a key replaces the value stored under that key, or adds it.\<close>

fun store_put :: "'k \<Rightarrow> 'v \<Rightarrow> ('k \<times> 'v) list \<Rightarrow> ('k \<times> 'v) list" where
  "store_put k v [] = [(k, v)]"
| "store_put k v ((k', v') # rows) =
     (if k' = k then (k, v) # rows else (k', v') # store_put k v rows)"

text \<open>The key attributes of the table are the strings \<open>pk\<close> and \<open>sk\<close>: the source
  addresses items by string values of both.\<close>

definition key_of :: "item \<Rightarrow> (string \<times> string) option" where
  "key_of it =
     (case it ''pk'' of
        Some (JStr p) \<Rightarrow> (case it ''sk'' of Some (JStr s) \<Rightarrow> Some (p, s) | _ \<Rightarrow> None)
      | _ \<Rightarrow> None)"

definition key_schema_error :: string where
  "key_schema_error = ''ValidationException: the key attributes do not match the schema''"

text \<open>\<^verbatim>\<open>table.put_item(Item=item)\<close>: raises when the service does, or when a key
  attribute is not a string; otherwise stores the item under its key.\<close>

definition put_item :: "env \<Rightarrow> item \<Rightarrow> world \<Rightarrow> (string + unit) \<times> world" where
  "put_item e it w =
     (let w1 = log_call PutItem w in
      case dynamodb_exc e of
        Some m \<Rightarrow> (Inl m, w1)
      | None \<Rightarrow>
          (case key_of it of
             None \<Rightarrow> (Inl key_schema_error, w1)
           | Some k \<Rightarrow> (Inr (), w1\<lparr>table := store_put k it (table w1)\<rparr>)))"

text \<open>\<^verbatim>\<open>table.query(KeyConditionExpression='pk = :pk', ...)['Items']\<close>: the items of
  one partition, in ascending order of the sort key.\<close>

definition partition_items :: "string \<Rightarrow> ((string \<times> string) \<times> item) list \<Rightarrow> item list" where
  "partition_items p rows = map snd (sort_key (\<lambda>r. snd (fst r)) (filter (\<lambda>r. fst (fst r) = p) rows))"

definition query :: "env \<Rightarrow> string \<Rightarrow> world \<Rightarrow> (string + item list) \<times> world" where
  "query e p w =
     (let w1 = log_call Query w in
      case dynamodb_exc e of
        Some m \<Rightarrow> (Inl m, w1)
      | None \<Rightarrow> (Inr (partition_items p (table w1)), w1))"

text \<open>\<^verbatim>\<open>table.update_item(Key=..., UpdateExpression='SET ...')\<close>: sets the attributes
  on the item stored under the key; when there is none, the item is created from the key
  attributes and the attributes set.\<close>

definition update_item ::
  "env \<Rightarrow> string \<times> string \<Rightarrow> item \<Rightarrow> world \<Rightarrow> (string + unit) \<times> world" where
  "update_item e k sets w =
     (let w1 = log_call UpdateItem w in
      case dynamodb_exc e of
        Some m \<Rightarrow> (Inl m, w1)
      | None \<Rightarrow>
          (let old = (case map_of (table w1) k of
                        None \<Rightarrow> [''pk'' \<mapsto> JStr (fst k), ''sk'' \<mapsto> JStr (snd k)]
                      | Some it \<Rightarrow> it)
           in (Inr (), w1\<lparr>table := store_put k (old ++ sets) (table w1)\<rparr>)))"

text \<open>\<^verbatim>\<open>table.scan()\<close>: the response carries the items of the page and, as
  \<open>Count\<close>, how many items the page holds.\<close>

record scan_response =
  Items :: "item list"
  Count :: nat

definition scan :: "env \<Rightarrow> world \<Rightarrow> (string + scan_response) \<times> world" where
  "scan e w =
     (let w1 = log_call Scan w in
      case dynamodb_exc e of
        Some m \<Rightarrow> (Inl m, w1)
      | None \<Rightarrow>
          (let its = map snd (table w1) in (Inr \<lparr>Items = its, Count = length its\<rparr>, w1)))"

text \<open>\<^verbatim>\<open>eventbridge.put_events(Entries=[entry])\<close>\<close>

definition put_events :: "env \<Rightarrow> entry \<Rightarrow> world \<Rightarrow> (string + unit) \<times> world" where
  "put_events e en w =
     (let w1 = log_call PutEvents w in
      case eventbridge_exc e of
        Some m \<Rightarrow> (Inl m, w1)
      | None \<Rightarrow> (Inr (), w1\<lparr>bus := bus w1 @ [en]\<rparr>))"

text \<open>\<^verbatim>\<open>s3.put_object(Bucket=..., Key=..., Body=..., ContentType=...)\<close>\<close>

definition put_object ::
  "env \<Rightarrow> string \<Rightarrow> string \<Rightarrow> item \<Rightarrow> string \<Rightarrow> world \<Rightarrow> (string + unit) \<times> world" where
  "put_object e b k body ct w =
     (let w1 = log_call PutObject w in
      case s3_exc e of
        Some m \<Rightarrow> (Inl m, w1)
      | None \<Rightarrow> (Inr (), w1\<lparr>objects := store_put (b, k) (body, ct) (objects w1)\<rparr>))"

section \<open>The handlers\<close>

text \<open>The item of \<open>create_order\<close>: the five generated attributes, then the caller's
  fields (\<^verbatim>\<open>**order\<close> comes last in the dict literal, so a caller's field
  replaces a generated attribute of the same name).\<close>

definition order_item :: "string \<Rightarrow> string \<Rightarrow> item \<Rightarrow> item" where
  "order_item order_id timestamp order =
     [''pk'' \<mapsto> JStr (''ORDER#'' @ order_id),
      ''sk'' \<mapsto> JStr (''METADATA#'' @ timestamp),
      ''order_id'' \<mapsto> JStr order_id,
      ''status'' \<mapsto> JStr ''created'',
      ''created_at'' \<mapsto> JStr timestamp] ++ order"

definition create_order ::
  "config \<Rightarrow> env \<Rightarrow> item \<Rightarrow> world \<Rightarrow> (http_exception + (string \<times> string) list) \<times> world" where
  "create_order cfg e order w =
     (let order_id = uuid4 e;
          timestamp = utcnow e
      in case put_item e (order_item order_id timestamp order) w of
           (Inl m, w1) \<Rightarrow> (Inl (HTTPException 500 (''Failed to create order: '' @ m)), w1)
         | (Inr _, w1) \<Rightarrow>
             (case put_events e
                     \<lparr>Source = ''myapp.orders'', DetailType = ''Order Created'',
                      Detail = [(''order_id'', order_id), (''status'', ''created''),
                                (''timestamp'', timestamp)],
                      EventBusName = EVENT_BUS_NAME cfg\<rparr> w1 of
                (Inl m, w2) \<Rightarrow>
                  (Inl (HTTPException 500 (''Failed to create order: '' @ m)), w2)
              | (Inr _, w2) \<Rightarrow>
                  (Inr [(''order_id'', order_id), (''status'', ''created''),
                        (''timestamp'', timestamp)], w2)))"

definition get_order ::
  "config \<Rightarrow> env \<Rightarrow> string \<Rightarrow> world \<Rightarrow> (http_exception + item) \<times> world" where
  "get_order cfg e order_id w =
     (case query e (''ORDER#'' @ order_id) w of
        (Inl m, w1) \<Rightarrow> (Inl (HTTPException 500 (''Failed to get order: '' @ m)), w1)
      | (Inr its, w1) \<Rightarrow>
          (case its of
             [] \<Rightarrow> (Inl (HTTPException 404 ''Order not found''), w1)
           | it # _ \<Rightarrow> (Inr it, w1)))"

text \<open>\<^verbatim>\<open>not new_status\<close> holds of \<^verbatim>\<open>None\<close> (the key is absent) and of the
  empty string.\<close>

fun falsy :: "string option \<Rightarrow> bool" where
  "falsy None = True"
| "falsy (Some s) = (s = [])"

definition update_order_status ::
  "config \<Rightarrow> env \<Rightarrow> string \<Rightarrow> (string \<rightharpoonup> string) \<Rightarrow> world
     \<Rightarrow> (http_exception + (string \<times> string) list) \<times> world" where
  "update_order_status cfg e order_id status_data w =
     (case status_data ''status'' of
        None \<Rightarrow> (Inl (HTTPException 400 ''Status is required''), w)
      | Some new_status \<Rightarrow>
          if falsy (Some new_status) then (Inl (HTTPException 400 ''Status is required''), w)
          else
            (let timestamp = utcnow e
             in case update_item e (''ORDER#'' @ order_id, ''METADATA#'' @ timestamp)
                       [''status'' \<mapsto> JStr new_status, ''updated_at'' \<mapsto> JStr timestamp] w of
                  (Inl m, w1) \<Rightarrow>
                    (Inl (HTTPException 500 (''Failed to update order: '' @ m)), w1)
                | (Inr _, w1) \<Rightarrow>
                    (case put_events e
                            \<lparr>Source = ''myapp.orders'', DetailType = ''Order Status Updated'',
                             Detail = [(''order_id'', order_id), (''status'', new_status),
                                       (''timestamp'', timestamp)],
                             EventBusName = EVENT_BUS_NAME cfg\<rparr> w1 of
                       (Inl m, w2) \<Rightarrow>
                         (Inl (HTTPException 500 (''Failed to update order: '' @ m)), w2)
                     | (Inr _, w2) \<Rightarrow>
                         (Inr [(''order_id'', order_id), (''status'', new_status),
                               (''timestamp'', timestamp)], w2))))"

record list_response =
  orders :: "item list"
  count :: nat

definition list_orders ::
  "config \<Rightarrow> env \<Rightarrow> world \<Rightarrow> (http_exception + list_response) \<times> world" where
  "list_orders cfg e w =
     (case scan e w of
        (Inl m, w1) \<Rightarrow> (Inl (HTTPException 500 (''Failed to list orders: '' @ m)), w1)
      | (Inr response, w1) \<Rightarrow>
          (Inr \<lparr>orders = Items response, count = Count response\<rparr>, w1))"

text \<open>What an f-string prints for a value: a string as it is, anything else through
  \<open>repr\<close>.\<close>

fun py_str :: "(json \<Rightarrow> string) \<Rightarrow> json \<Rightarrow> string" where
  "py_str r (JStr s) = s"
| "py_str r v = r v"

definition upload_file ::
  "config \<Rightarrow> env \<Rightarrow> item \<Rightarrow> world \<Rightarrow> (http_exception + (string \<times> string) list) \<times> world" where
  "upload_file cfg e file_data w =
     (if S3_BUCKET cfg = [] then (Inl (HTTPException 500 ''S3 bucket not configured''), w)
      else
        (let file_key = ''uploads/'' @ uuid4 e @ ''-'' @
               (case file_data ''filename'' of
                  None \<Rightarrow> ''file''
                | Some v \<Rightarrow> py_str (repr e) v)
         in case put_object e (S3_BUCKET cfg) file_key file_data ''application/json'' w of
              (Inl m, w1) \<Rightarrow> (Inl (HTTPException 500 (''Failed to upload file: '' @ m)), w1)
            | (Inr _, w1) \<Rightarrow>
                (Inr [(''file_key'', file_key), (''bucket'', S3_BUCKET cfg),
                      (''timestamp'', utcnow e)], w1)))"

section \<open>Sequences of requests\<close>

text \<open>
  A client that posts one order after the other: each request has its own
  environment, and the state of the services is threaded through. \<open>returned_ids\<close>
  reads the \<open>order_id\<close> of every response that is not an error.
\<close>

fun create_orders ::
  "config \<Rightarrow> (env \<times> item) list \<Rightarrow> world
     \<Rightarrow> (http_exception + (string \<times> string) list) list \<times> world" where
  "create_orders cfg [] w = ([], w)"
| "create_orders cfg ((e, order) # reqs) w =
     (case create_order cfg e order w of
        (r, w1) \<Rightarrow> (case create_orders cfg reqs w1 of (rs, w2) \<Rightarrow> (r # rs, w2)))"

fun returned_ids :: "(http_exception + (string \<times> string) list) list \<Rightarrow> string list" where
  "returned_ids [] = []"
| "returned_ids (Inl x # rs) = returned_ids rs"
| "returned_ids (Inr resp # rs) =
     (case map_of resp ''order_id'' of
        None \<Rightarrow> returned_ids rs
      | Some i \<Rightarrow> i # returned_ids rs)"

section \<open>Sample configurations, environments and requests\<close>

text \<open>
  A configured and an unconfigured deployment (\<open>S3_BUCKET\<close> defaults to the
  empty string), an environment in which no service call raises, one in which the
  event bus refuses the publish, one in which the store raises, one in which the
  object store raises, the services before any request, and three order bodies.
\<close>

definition demo_config :: config where
  "demo_config = \<lparr>TABLE_NAME = ''OrdersTable'', EVENT_BUS_NAME = ''default'', S3_BUCKET = ''demo-bucket''\<rparr>"

definition unconfigured :: config where
  "unconfigured = \<lparr>TABLE_NAME = ''OrdersTable'', EVENT_BUS_NAME = ''default'', S3_BUCKET = ''''\<rparr>"

definition quiet_env :: "string \<Rightarrow> string \<Rightarrow> env" where
  "quiet_env u t = \<lparr>uuid4 = u, utcnow = t, dynamodb_exc = None, eventbridge_exc = None,
     s3_exc = None, repr = (\<lambda>v. ''?'')\<rparr>"

definition publish_fails :: "string \<Rightarrow> string \<Rightarrow> env" where
  "publish_fails u t = \<lparr>uuid4 = u, utcnow = t, dynamodb_exc = None,
     eventbridge_exc = Some ''AccessDenied'', s3_exc = None, repr = (\<lambda>v. ''?'')\<rparr>"

definition store_fails :: "string \<Rightarrow> string \<Rightarrow> env" where
  "store_fails u t = \<lparr>uuid4 = u, utcnow = t, dynamodb_exc = Some ''ServiceUnavailable'',
     eventbridge_exc = None, s3_exc = None, repr = (\<lambda>v. ''?'')\<rparr>"

definition upload_fails :: "string \<Rightarrow> string \<Rightarrow> env" where
  "upload_fails u t = \<lparr>uuid4 = u, utcnow = t, dynamodb_exc = None,
     eventbridge_exc = None, s3_exc = Some ''AccessDenied'', repr = (\<lambda>v. ''?'')\<rparr>"

definition empty_world :: world where
  "empty_world = \<lparr>table = [], bus = [], objects = [], calls = []\<rparr>"

definition sample_order :: item where
  "sample_order = [''customer'' \<mapsto> JStr ''ada'', ''total'' \<mapsto> JNum 3]"

definition shipped_order :: item where
  "shipped_order = [''customer'' \<mapsto> JStr ''ada'', ''status'' \<mapsto> JStr ''shipped'']"

definition keyed_order :: item where
  "keyed_order = [''pk'' \<mapsto> JStr ''mine'', ''customer'' \<mapsto> JStr ''ada'']"

section \<open>Facts about the store and the handlers\<close>

lemma quiet_env_simps [simp]:
  "uuid4 (quiet_env u t) = u" "utcnow (quiet_env u t) = t"
  "dynamodb_exc (quiet_env u t) = None" "eventbridge_exc (quiet_env u t) = None"
  "s3_exc (quiet_env u t) = None"
  by (simp_all add: quiet_env_def)

lemma publish_fails_simps [simp]:
  "uuid4 (publish_fails u t) = u" "utcnow (publish_fails u t) = t"
  "dynamodb_exc (publish_fails u t) = None"
  "eventbridge_exc (publish_fails u t) = Some ''AccessDenied''"
  by (simp_all add: publish_fails_def)

lemma store_fails_simps [simp]:
  "uuid4 (store_fails u t) = u" "utcnow (store_fails u t) = t"
  "dynamodb_exc (store_fails u t) = Some ''ServiceUnavailable''"
  by (simp_all add: store_fails_def)

lemma upload_fails_simps [simp]:
  "uuid4 (upload_fails u t) = u" "utcnow (upload_fails u t) = t"
  "s3_exc (upload_fails u t) = Some ''AccessDenied''"
  by (simp_all add: upload_fails_def)

lemma empty_world_simps [simp]:
  "table empty_world = []" "bus empty_world = []" "objects empty_world = []"
  "calls empty_world = []"
  by (simp_all add: empty_world_def)

lemma demo_config_simps [simp]:
  "TABLE_NAME demo_config = ''OrdersTable''" "EVENT_BUS_NAME demo_config = ''default''"
  "S3_BUCKET demo_config = ''demo-bucket''"
  by (simp_all add: demo_config_def)

lemma unconfigured_simps [simp]: "S3_BUCKET unconfigured = []"
  by (simp add: unconfigured_def)

text \<open>
  A write is visible under its key and nowhere else; under a key that is not
  stored it adds a row at the end.
\<close>

lemma map_of_store_put: "map_of (store_put k v rows) = (map_of rows)(k \<mapsto> v)"
  by (induction rows) auto

lemma store_put_fresh: "k \<notin> fst ` set rows \<Longrightarrow> store_put k v rows = rows @ [(k, v)]"
  by (induction rows) auto

text \<open>
  Sorting neither adds nor drops rows, so a partition is empty exactly when no
  row carries its partition key.
\<close>

lemma sort_key_Nil_iff: "sort_key f xs = [] \<longleftrightarrow> xs = []"
proof
  assume "sort_key f xs = []"
  then have "length (sort_key f xs) = 0" by simp
  then show "xs = []" by simp
next
  assume "xs = []"
  then show "sort_key f xs = []" by simp
qed

lemma partition_empty_iff:
  "partition_items p rows = [] \<longleftrightarrow> (\<forall>r \<in> set rows. fst (fst r) \<noteq> p)"
  by (simp add: partition_items_def sort_key_Nil_iff filter_empty_conv)

lemma partition_fresh:
  assumes "\<forall>r \<in> set rows. fst (fst r) \<noteq> p"
  shows "partition_items p (store_put (p, s) it rows) = [it]"
proof -
  have "(p, s) \<notin> fst ` set rows" using assms by force
  then have "store_put (p, s) it rows = rows @ [((p, s), it)]" by (rule store_put_fresh)
  moreover have "filter (\<lambda>r. fst (fst r) = p) rows = []" using assms by (simp add: filter_empty_conv)
  ultimately show ?thesis by (simp add: partition_items_def)
qed

text \<open>
  What a successful \<open>create_order\<close> has done, and what it does when no
  service call raises.
\<close>

lemma key_of_order_item:
  "order ''pk'' = None \<Longrightarrow> order ''sk'' = None \<Longrightarrow>
   key_of (order_item u t order) = Some (''ORDER#'' @ u, ''METADATA#'' @ t)"
  by (simp add: key_of_def order_item_def map_add_def)

lemma create_order_success:
  assumes "create_order cfg e order w = (Inr resp, w1)"
  shows "\<exists>k. key_of (order_item (uuid4 e) (utcnow e) order) = Some k \<and>
             table w1 = store_put k (order_item (uuid4 e) (utcnow e) order) (table w) \<and>
             resp = [(''order_id'', uuid4 e), (''status'', ''created''), (''timestamp'', utcnow e)] \<and>
             dynamodb_exc e = None"
  using assms
  by (auto simp: create_order_def put_item_def put_events_def log_call_def Let_def
           split: option.splits prod.splits sum.splits)

lemma create_order_quiet:
  assumes "key_of (order_item u t order) = Some k"
  shows "fst (create_order cfg (quiet_env u t) order w) =
           Inr [(''order_id'', u), (''status'', ''created''), (''timestamp'', t)]"
    and "table (snd (create_order cfg (quiet_env u t) order w)) =
           store_put k (order_item u t order) (table w)"
  using assms
  by (simp_all add: create_order_def put_item_def put_events_def log_call_def Let_def)

text \<open>
  \<open>update_order_status\<close> past the check of the status: the table after
  the call, the response, the calls made, and when the answer is a 400.
\<close>

lemma update_order_status_table:
  assumes "status_data ''status'' = Some s" and "s \<noteq> []" and "dynamodb_exc e = None"
  shows "table (snd (update_order_status cfg e order_id status_data w)) =
           store_put (''ORDER#'' @ order_id, ''METADATA#'' @ utcnow e)
             ((case map_of (table w) (''ORDER#'' @ order_id, ''METADATA#'' @ utcnow e) of
                 None \<Rightarrow> [''pk'' \<mapsto> JStr (''ORDER#'' @ order_id),
                           ''sk'' \<mapsto> JStr (''METADATA#'' @ utcnow e)]
               | Some it \<Rightarrow> it)
              ++ [''status'' \<mapsto> JStr s, ''updated_at'' \<mapsto> JStr (utcnow e)])
             (table w)"
  using assms
  by (simp add: update_order_status_def update_item_def put_events_def log_call_def Let_def
           split: option.splits)

lemma update_order_status_response:
  assumes "status_data ''status'' = Some s" and "s \<noteq> []" and "dynamodb_exc e = None"
    and "eventbridge_exc e = None"
  shows "fst (update_order_status cfg e order_id status_data w) =
           Inr [(''order_id'', order_id), (''status'', s), (''timestamp'', utcnow e)]"
    and "calls (snd (update_order_status cfg e order_id status_data w)) =
           calls w @ [UpdateItem, PutEvents]"
  using assms
  by (simp_all add: update_order_status_def update_item_def put_events_def log_call_def Let_def)

lemma update_order_status_400_iff:
  "(\<exists>d. fst (update_order_status cfg e order_id status_data w) = Inl (HTTPException 400 d))
     \<longleftrightarrow> (status_data ''status'' = None \<or> status_data ''status'' = Some [])"
  by (auto simp: update_order_status_def update_item_def put_events_def log_call_def Let_def
           split: option.splits)

section \<open>The status update is addressed by the current timestamp\<close>

text \<open>
  C1. For every order id and every status that is present and not the empty string,
  when the store call does not raise, \<open>update_order_status\<close> writes under the key
  (\<open>ORDER#id\<close>, \<open>METADATA#now\<close>) built from the timestamp it has just read:
  the item under that key carries the new status and \<open>updated_at\<close>, the item under
  every other key is what it was (so the item that \<open>create_order\<close> wrote under an
  earlier timestamp is not touched), and when nothing was stored under the key the
  table grows by exactly the new item.
\<close>

theorem update_status_keyed_by_current_timestamp:
  assumes "status_data ''status'' = Some s" and "s \<noteq> []" and "dynamodb_exc e = None"
  shows "(\<exists>it. map_of (table (snd (update_order_status cfg e order_id status_data w)))
                 (''ORDER#'' @ order_id, ''METADATA#'' @ utcnow e) = Some it \<and>
               it ''status'' = Some (JStr s) \<and> it ''updated_at'' = Some (JStr (utcnow e))) \<and>
         (\<forall>k. k \<noteq> (''ORDER#'' @ order_id, ''METADATA#'' @ utcnow e) \<longrightarrow>
               map_of (table (snd (update_order_status cfg e order_id status_data w))) k =
               map_of (table w) k) \<and>
         (map_of (table w) (''ORDER#'' @ order_id, ''METADATA#'' @ utcnow e) = None \<longrightarrow>
            table (snd (update_order_status cfg e order_id status_data w)) =
              table w @ [((''ORDER#'' @ order_id, ''METADATA#'' @ utcnow e),
                          [''pk'' \<mapsto> JStr (''ORDER#'' @ order_id),
                           ''sk'' \<mapsto> JStr (''METADATA#'' @ utcnow e),
                           ''status'' \<mapsto> JStr s,
                           ''updated_at'' \<mapsto> JStr (utcnow e)])])"
proof -
  let ?k = "(''ORDER#'' @ order_id, ''METADATA#'' @ utcnow e)"
  note t = update_order_status_table
             [where status_data = status_data and s = s and e = e and cfg = cfg
                and order_id = order_id and w = w, OF assms]
  have a: "\<exists>it. map_of (table (snd (update_order_status cfg e order_id status_data w))) ?k = Some it \<and>
               it ''status'' = Some (JStr s) \<and> it ''updated_at'' = Some (JStr (utcnow e))"
    unfolding t by (simp add: map_of_store_put)
  have b: "\<forall>k. k \<noteq> ?k \<longrightarrow>
             map_of (table (snd (update_order_status cfg e order_id status_data w))) k =
             map_of (table w) k"
    unfolding t by (simp add: map_of_store_put)
  have c: "map_of (table w) ?k = None \<longrightarrow>
            table (snd (update_order_status cfg e order_id status_data w)) =
              table w @ [(?k, [''pk'' \<mapsto> JStr (''ORDER#'' @ order_id),
                              ''sk'' \<mapsto> JStr (''METADATA#'' @ utcnow e),
                              ''status'' \<mapsto> JStr s,
                              ''updated_at'' \<mapsto> JStr (utcnow e)])]"
  proof
    assume n: "map_of (table w) ?k = None"
    then have "?k \<notin> fst ` set (table w)" by (simp add: map_of_eq_None_iff)
    then show "table (snd (update_order_status cfg e order_id status_data w)) =
              table w @ [(?k, [''pk'' \<mapsto> JStr (''ORDER#'' @ order_id),
                              ''sk'' \<mapsto> JStr (''METADATA#'' @ utcnow e),
                              ''status'' \<mapsto> JStr s,
                              ''updated_at'' \<mapsto> JStr (utcnow e)])]"
      unfolding t using n by (simp add: store_put_fresh)
  qed
  from a b c show ?thesis by blast
qed

text \<open>
  An order created at \<open>t1\<close> and updated at \<open>t2\<close>: the created item is
  still stored as it was written, and the table holds two items.
\<close>

theorem update_status_keyed_by_current_timestamp_witness:
  "map_of (table (snd (update_order_status demo_config (quiet_env ''u2'' ''t2'') ''u1''
                         [''status'' \<mapsto> ''shipped'']
                         (snd (create_order demo_config (quiet_env ''u1'' ''t1'') sample_order
                                 empty_world)))))
     (''ORDER#u1'', ''METADATA#t1'') = Some (order_item ''u1'' ''t1'' sample_order) \<and>
   length (table (snd (update_order_status demo_config (quiet_env ''u2'' ''t2'') ''u1''
                         [''status'' \<mapsto> ''shipped'']
                         (snd (create_order demo_config (quiet_env ''u1'' ''t1'') sample_order
                                 empty_world))))) = 2"
proof -
  let ?w1 = "snd (create_order demo_config (quiet_env ''u1'' ''t1'') sample_order empty_world)"
  have k: "key_of (order_item ''u1'' ''t1'' sample_order) = Some (''ORDER#u1'', ''METADATA#t1'')"
    by (simp add: key_of_def order_item_def sample_order_def map_add_def)
  have w1: "table ?w1 = [((''ORDER#u1'', ''METADATA#t1''), order_item ''u1'' ''t1'' sample_order)]"
    by (simp add: create_order_def put_item_def put_events_def log_call_def Let_def k)
  have n: "map_of (table ?w1) (''ORDER#'' @ ''u1'', ''METADATA#'' @ utcnow (quiet_env ''u2'' ''t2'')) = None"
    by (simp add: w1)
  from update_status_keyed_by_current_timestamp
         [of "[''status'' \<mapsto> ''shipped'']" "''shipped''" "quiet_env ''u2'' ''t2''"
             demo_config "''u1''" ?w1] n
  show ?thesis by (simp add: w1)
qed

text \<open>
  The status value need not be missing for the write to be skipped: with the empty
  string as status nothing is stored under the key and no service is called.
\<close>

theorem update_status_empty_status_writes_nothing:
  "[''status'' \<mapsto> ''''] ''status'' = Some '''' \<and>
   map_of (table (snd (update_order_status demo_config (quiet_env ''u2'' ''t2'') ''u1''
                         [''status'' \<mapsto> ''''] empty_world)))
     (''ORDER#u1'', ''METADATA#t2'') = None \<and>
   calls (snd (update_order_status demo_config (quiet_env ''u2'' ''t2'') ''u1''
                 [''status'' \<mapsto> ''''] empty_world)) = []"
  by (simp add: update_order_status_def)

section \<open>Reading an order back after creating it\<close>

text \<open>
  C2. For every body without a \<open>pk\<close> field: if \<open>create_order\<close> succeeds with
  id X, no item was stored in partition \<open>ORDER#X\<close> before, and the query of the
  following \<open>get_order\<close> does not raise, then \<open>get_order\<close> for X returns the
  stored item; that item holds every field of the body with the body's value, and its
  status is \<open>created\<close> when the body has no status field.
\<close>

theorem get_after_create:
  assumes "create_order cfg e order w = (Inr resp, w1)"
    and "order ''pk'' = None"
    and "\<forall>r \<in> set (table w). fst (fst r) \<noteq> ''ORDER#'' @ uuid4 e"
    and "dynamodb_exc e' = None"
  shows "map_of resp ''order_id'' = Some (uuid4 e) \<and>
         fst (get_order cfg e' (uuid4 e) w1) = Inr (order_item (uuid4 e) (utcnow e) order) \<and>
         (\<forall>k v. order k = Some v \<longrightarrow> order_item (uuid4 e) (utcnow e) order k = Some v) \<and>
         (order ''status'' = None \<longrightarrow>
            order_item (uuid4 e) (utcnow e) order ''status'' = Some (JStr ''created''))"
proof -
  let ?it = "order_item (uuid4 e) (utcnow e) order"
  from create_order_success [OF assms(1)] obtain k where
    k: "key_of ?it = Some k" and t: "table w1 = store_put k ?it (table w)"
    and r: "resp = [(''order_id'', uuid4 e), (''status'', ''created''), (''timestamp'', utcnow e)]"
    by blast
  have pk: "?it ''pk'' = Some (JStr (''ORDER#'' @ uuid4 e))"
    using assms(2) by (simp add: order_item_def map_add_def)
  from k pk have "fst k = ''ORDER#'' @ uuid4 e"
    by (auto simp: key_of_def split: option.splits json.splits)
  then obtain s where ks: "k = (''ORDER#'' @ uuid4 e, s)" by (cases k) simp
  have "partition_items (''ORDER#'' @ uuid4 e) (table w1) = [?it]"
    unfolding t ks using assms(3) by (rule partition_fresh)
  then have g: "fst (get_order cfg e' (uuid4 e) w1) = Inr ?it"
    using assms(4) by (simp add: get_order_def query_def log_call_def Let_def)
  have f: "\<forall>k v. order k = Some v \<longrightarrow> ?it k = Some v"
    by (simp add: order_item_def map_add_def)
  have st: "order ''status'' = None \<longrightarrow> ?it ''status'' = Some (JStr ''created'')"
    by (simp add: order_item_def map_add_def)
  from r g f st show ?thesis by simp
qed

theorem get_after_create_witness:
  "fst (get_order demo_config (quiet_env ''u2'' ''t2'') ''u1''
          (snd (create_order demo_config (quiet_env ''u1'' ''t1'') sample_order empty_world))) =
     Inr (order_item ''u1'' ''t1'' sample_order) \<and>
   order_item ''u1'' ''t1'' sample_order ''customer'' = Some (JStr ''ada'') \<and>
   order_item ''u1'' ''t1'' sample_order ''total'' = Some (JNum 3) \<and>
   order_item ''u1'' ''t1'' sample_order ''status'' = Some (JStr ''created'')"
proof -
  have k: "key_of (order_item ''u1'' ''t1'' sample_order) = Some (''ORDER#'' @ ''u1'', ''METADATA#'' @ ''t1'')"
    by (rule key_of_order_item) (simp_all add: sample_order_def)
  have c: "create_order demo_config (quiet_env ''u1'' ''t1'') sample_order empty_world =
        (Inr [(''order_id'', ''u1''), (''status'', ''created''), (''timestamp'', ''t1'')],
         snd (create_order demo_config (quiet_env ''u1'' ''t1'') sample_order empty_world))"
    by (simp add: prod_eq_iff create_order_quiet(1) [OF k])
  have p: "sample_order ''pk'' = None" by (simp add: sample_order_def)
  have f: "\<forall>r \<in> set (table empty_world). fst (fst r) \<noteq> ''ORDER#'' @ uuid4 (quiet_env ''u1'' ''t1'')"
    by simp
  have q: "dynamodb_exc (quiet_env ''u2'' ''t2'') = None" by simp
  have s1: "sample_order ''customer'' = Some (JStr ''ada'')" by (simp add: sample_order_def)
  have s2: "sample_order ''total'' = Some (JNum 3)" by (simp add: sample_order_def)
  have s3: "sample_order ''status'' = None" by (simp add: sample_order_def)
  from get_after_create [OF c p f q] s1 s2 s3 show ?thesis by simp
qed

text \<open>
  A body with a status field: the order is created, and the record read back
  carries the body's status, not \<open>created\<close>.
\<close>

theorem get_after_create_status_overridden:
  "fst (create_order demo_config (quiet_env ''u1'' ''t1'') shipped_order empty_world) =
     Inr [(''order_id'', ''u1''), (''status'', ''created''), (''timestamp'', ''t1'')] \<and>
   (case fst (get_order demo_config (quiet_env ''u2'' ''t2'') ''u1''
               (snd (create_order demo_config (quiet_env ''u1'' ''t1'') shipped_order
                       empty_world))) of
      Inl x \<Rightarrow> False
    | Inr it \<Rightarrow> it ''status'' = Some (JStr ''shipped'') \<and> it ''status'' \<noteq> Some (JStr ''created''))"
proof -
  have k: "key_of (order_item ''u1'' ''t1'' shipped_order) = Some (''ORDER#'' @ ''u1'', ''METADATA#'' @ ''t1'')"
    by (rule key_of_order_item) (simp_all add: shipped_order_def)
  note c = create_order_quiet [OF k, of demo_config empty_world]
  have g: "fst (get_order demo_config (quiet_env ''u2'' ''t2'') ''u1''
               (snd (create_order demo_config (quiet_env ''u1'' ''t1'') shipped_order
                       empty_world))) = Inr (order_item ''u1'' ''t1'' shipped_order)"
    by (simp add: get_order_def query_def log_call_def Let_def c(2) partition_items_def)
  have s: "order_item ''u1'' ''t1'' shipped_order ''status'' = Some (JStr ''shipped'')"
    by (simp add: order_item_def shipped_order_def map_add_def)
  show ?thesis using c(1) g s by simp
qed

text \<open>
  A body with a \<open>pk\<close> field: the item is stored in the partition the body
  names, and the order is not found under the id that was returned.
\<close>

lemma get_after_create_pk_overridden:
  "fst (create_order demo_config (quiet_env ''u1'' ''t1'') keyed_order empty_world) =
     Inr [(''order_id'', ''u1''), (''status'', ''created''), (''timestamp'', ''t1'')] \<and>
   fst (get_order demo_config (quiet_env ''u2'' ''t2'') ''u1''
          (snd (create_order demo_config (quiet_env ''u1'' ''t1'') keyed_order empty_world))) =
     Inl (HTTPException 404 ''Order not found'')"
proof -
  have k: "key_of (order_item ''u1'' ''t1'' keyed_order) = Some (''mine'', ''METADATA#t1'')"
    by (simp add: key_of_def order_item_def keyed_order_def map_add_def)
  note c = create_order_quiet [OF k, of demo_config empty_world]
  have "fst (get_order demo_config (quiet_env ''u2'' ''t2'') ''u1''
          (snd (create_order demo_config (quiet_env ''u1'' ''t1'') keyed_order empty_world))) =
     Inl (HTTPException 404 ''Order not found'')"
    by (simp add: get_order_def query_def log_call_def Let_def c(2) partition_items_def)
  with c(1) show ?thesis by simp
qed

section \<open>When the status update answers 400\<close>

text \<open>
  C3. For every order id, \<open>update_order_status\<close> answers 400 if and only if the
  body has no status field or its status is the empty string; the empty body is
  answered 400 with the services untouched. When the status is present and not empty
  and neither service call raises, the handler calls the store and the event bus,
  the item under the key carries the status, and the response is
  \<open>{order_id, status, timestamp}\<close> with the status supplied.
\<close>

theorem update_status_400_iff_falsy:
  "((\<exists>d. fst (update_order_status cfg e order_id status_data w) = Inl (HTTPException 400 d))
      \<longleftrightarrow> (status_data ''status'' = None \<or> status_data ''status'' = Some [])) \<and>
   (status_data = Map.empty \<longrightarrow>
      update_order_status cfg e order_id status_data w =
        (Inl (HTTPException 400 ''Status is required''), w)) \<and>
   (\<forall>s. status_data ''status'' = Some s \<and> s \<noteq> [] \<and> dynamodb_exc e = None \<and>
        eventbridge_exc e = None \<longrightarrow>
      fst (update_order_status cfg e order_id status_data w) =
        Inr [(''order_id'', order_id), (''status'', s), (''timestamp'', utcnow e)] \<and>
      calls (snd (update_order_status cfg e order_id status_data w)) =
        calls w @ [UpdateItem, PutEvents] \<and>
      (\<exists>it. map_of (table (snd (update_order_status cfg e order_id status_data w)))
               (''ORDER#'' @ order_id, ''METADATA#'' @ utcnow e) = Some it \<and>
            it ''status'' = Some (JStr s)))"
proof -
  have a: "(\<exists>d. fst (update_order_status cfg e order_id status_data w) = Inl (HTTPException 400 d))
      \<longleftrightarrow> (status_data ''status'' = None \<or> status_data ''status'' = Some [])"
    by (rule update_order_status_400_iff)
  have b: "status_data = Map.empty \<longrightarrow>
      update_order_status cfg e order_id status_data w =
        (Inl (HTTPException 400 ''Status is required''), w)"
    by (simp add: update_order_status_def)
  have c: "\<forall>s. status_data ''status'' = Some s \<and> s \<noteq> [] \<and> dynamodb_exc e = None \<and>
        eventbridge_exc e = None \<longrightarrow>
      fst (update_order_status cfg e order_id status_data w) =
        Inr [(''order_id'', order_id), (''status'', s), (''timestamp'', utcnow e)] \<and>
      calls (snd (update_order_status cfg e order_id status_data w)) =
        calls w @ [UpdateItem, PutEvents] \<and>
      (\<exists>it. map_of (table (snd (update_order_status cfg e order_id status_data w)))
               (''ORDER#'' @ order_id, ''METADATA#'' @ utcnow e) = Some it \<and>
            it ''status'' = Some (JStr s))"
  proof (intro allI impI, elim conjE)
    fix s
    assume h: "status_data ''status'' = Some s" "s \<noteq> []" "dynamodb_exc e = None"
      "eventbridge_exc e = None"
    note r = update_order_status_response
               [where status_data = status_data and s = s and e = e and cfg = cfg
                  and order_id = order_id and w = w, OF h]
    note t = update_order_status_table
               [where status_data = status_data and s = s and e = e and cfg = cfg
                  and order_id = order_id and w = w, OF h(1-3)]
    have "\<exists>it. map_of (table (snd (update_order_status cfg e order_id status_data w)))
               (''ORDER#'' @ order_id, ''METADATA#'' @ utcnow e) = Some it \<and>
            it ''status'' = Some (JStr s)"
      unfolding t by (simp add: map_of_store_put)
    with r show "fst (update_order_status cfg e order_id status_data w) =
        Inr [(''order_id'', order_id), (''status'', s), (''timestamp'', utcnow e)] \<and>
      calls (snd (update_order_status cfg e order_id status_data w)) =
        calls w @ [UpdateItem, PutEvents] \<and>
      (\<exists>it. map_of (table (snd (update_order_status cfg e order_id status_data w)))
               (''ORDER#'' @ order_id, ''METADATA#'' @ utcnow e) = Some it \<and>
            it ''status'' = Some (JStr s))"
      by simp
  qed
  from a b c show ?thesis by blast
qed

theorem update_status_400_iff_falsy_witness:
  "fst (update_order_status demo_config (quiet_env ''u2'' ''t2'') ''u1'' Map.empty empty_world) =
     Inl (HTTPException 400 ''Status is required'') \<and>
   fst (update_order_status demo_config (quiet_env ''u2'' ''t2'') ''u1''
          [''status'' \<mapsto> ''shipped''] empty_world) =
     Inr [(''order_id'', ''u1''), (''status'', ''shipped''), (''timestamp'', ''t2'')] \<and>
   calls (snd (update_order_status demo_config (quiet_env ''u2'' ''t2'') ''u1''
                 [''status'' \<mapsto> ''shipped''] empty_world)) = [UpdateItem, PutEvents]"
  using update_status_400_iff_falsy
          [of demo_config "quiet_env ''u2'' ''t2''" "''u1''" Map.empty empty_world]
        update_status_400_iff_falsy
          [of demo_config "quiet_env ''u2'' ''t2''" "''u1''" "[''status'' \<mapsto> ''shipped'']"
              empty_world]
  by simp

text \<open>
  The status field is present, and the answer is 400 all the same.
\<close>

theorem update_status_400_with_status_present:
  "[''status'' \<mapsto> ''''] ''status'' = Some '''' \<and>
   fst (update_order_status demo_config (quiet_env ''u2'' ''t2'') ''u1''
          [''status'' \<mapsto> ''''] empty_world) = Inl (HTTPException 400 ''Status is required'')"
  by (simp add: update_order_status_def)

section \<open>Reading an order\<close>

text \<open>
  C4. For every order id: when the query for partition \<open>ORDER#id\<close> returns
  the empty list, \<open>get_order\<close> answers 404; when the list is not empty, it returns
  the first item of the list. The list is empty exactly when the table has no row in
  that partition.
\<close>

theorem get_order_not_found_or_first:
  assumes "query e (''ORDER#'' @ order_id) w = (Inr its, w1)"
  shows "(its = [] \<longrightarrow> get_order cfg e order_id w = (Inl (HTTPException 404 ''Order not found''), w1)) \<and>
         (its \<noteq> [] \<longrightarrow> get_order cfg e order_id w = (Inr (hd its), w1)) \<and>
         (its = [] \<longleftrightarrow> (\<forall>r \<in> set (table w). fst (fst r) \<noteq> ''ORDER#'' @ order_id))"
proof -
  from assms have i: "its = partition_items (''ORDER#'' @ order_id) (table w)"
    by (auto simp: query_def log_call_def Let_def split: option.splits)
  have "its = [] \<longleftrightarrow> (\<forall>r \<in> set (table w). fst (fst r) \<noteq> ''ORDER#'' @ order_id)"
    unfolding i by (rule partition_empty_iff)
  moreover have "its = [] \<longrightarrow>
      get_order cfg e order_id w = (Inl (HTTPException 404 ''Order not found''), w1)"
    using assms by (simp add: get_order_def)
  moreover have "its \<noteq> [] \<longrightarrow> get_order cfg e order_id w = (Inr (hd its), w1)"
    using assms by (cases its) (simp_all add: get_order_def)
  ultimately show ?thesis by blast
qed

theorem get_order_not_found_or_first_witness:
  "fst (get_order demo_config (quiet_env ''u2'' ''t2'') ''nobody'' empty_world) =
     Inl (HTTPException 404 ''Order not found'') \<and>
   fst (get_order demo_config (quiet_env ''u2'' ''t2'') ''u1''
         (snd (create_order demo_config (quiet_env ''u1'' ''t1'') sample_order empty_world))) =
     Inr (order_item ''u1'' ''t1'' sample_order)"
proof -
  let ?w1 = "snd (create_order demo_config (quiet_env ''u1'' ''t1'') sample_order empty_world)"
  have q0: "query (quiet_env ''u2'' ''t2'') (''ORDER#'' @ ''nobody'') empty_world =
              (Inr [], log_call Query empty_world)"
    by (simp add: query_def Let_def partition_items_def log_call_def)
  have k: "key_of (order_item ''u1'' ''t1'' sample_order) = Some (''ORDER#'' @ ''u1'', ''METADATA#'' @ ''t1'')"
    by (rule key_of_order_item) (simp_all add: sample_order_def)
  have q1: "query (quiet_env ''u2'' ''t2'') (''ORDER#'' @ ''u1'') ?w1 =
              (Inr [order_item ''u1'' ''t1'' sample_order], log_call Query ?w1)"
    by (simp add: query_def Let_def partition_items_def log_call_def
          create_order_quiet(2) [OF k])
  from get_order_not_found_or_first [OF q0, of demo_config]
       get_order_not_found_or_first [OF q1, of demo_config]
  show ?thesis by simp
qed

section \<open>A publish that fails after the write\<close>

text \<open>
  C5. For every \<open>create_order\<close> whose store write succeeds and whose publish
  raises: the client gets a 500 with the generic message, the item stays in the
  table under its key, the only calls made are the write and the publish (nothing
  takes the write back), nothing reaches the bus, and the response is the one the
  client would get had the write itself raised with that message.
\<close>

theorem create_order_publish_failure_keeps_record:
  assumes "fst (put_item e (order_item (uuid4 e) (utcnow e) order) w) = Inr ()"
    and "eventbridge_exc e = Some m"
  shows "fst (create_order cfg e order w) =
           Inl (HTTPException 500 (''Failed to create order: '' @ m)) \<and>
         (\<exists>k. key_of (order_item (uuid4 e) (utcnow e) order) = Some k \<and>
              map_of (table (snd (create_order cfg e order w))) k =
                Some (order_item (uuid4 e) (utcnow e) order)) \<and>
         calls (snd (create_order cfg e order w)) = calls w @ [PutItem, PutEvents] \<and>
         bus (snd (create_order cfg e order w)) = bus w \<and>
         fst (create_order cfg (e\<lparr>dynamodb_exc := Some m\<rparr>) order w) =
           fst (create_order cfg e order w)"
proof -
  from assms(1) obtain k where k: "key_of (order_item (uuid4 e) (utcnow e) order) = Some k"
    and d: "dynamodb_exc e = None"
    by (auto simp: put_item_def Let_def split: option.splits)
  have r: "fst (create_order cfg e order w) =
           Inl (HTTPException 500 (''Failed to create order: '' @ m))"
    using k d assms(2)
    by (simp add: create_order_def put_item_def put_events_def log_call_def Let_def)
  have t: "table (snd (create_order cfg e order w)) =
             store_put k (order_item (uuid4 e) (utcnow e) order) (table w)"
    using k d assms(2)
    by (simp add: create_order_def put_item_def put_events_def log_call_def Let_def)
  have c: "calls (snd (create_order cfg e order w)) = calls w @ [PutItem, PutEvents]"
    using k d assms(2)
    by (simp add: create_order_def put_item_def put_events_def log_call_def Let_def)
  have b: "bus (snd (create_order cfg e order w)) = bus w"
    using k d assms(2)
    by (simp add: create_order_def put_item_def put_events_def log_call_def Let_def)
  have u: "fst (create_order cfg (e\<lparr>dynamodb_exc := Some m\<rparr>) order w) =
           Inl (HTTPException 500 (''Failed to create order: '' @ m))"
    by (simp add: create_order_def put_item_def log_call_def Let_def)
  have "map_of (table (snd (create_order cfg e order w))) k =
          Some (order_item (uuid4 e) (utcnow e) order)"
    unfolding t by (simp add: map_of_store_put)
  with k r c b u show ?thesis by simp
qed

theorem create_order_publish_failure_keeps_record_witness:
  "fst (create_order demo_config (publish_fails ''u1'' ''t1'') sample_order empty_world) =
     Inl (HTTPException 500 ''Failed to create order: AccessDenied'') \<and>
   map_of (table (snd (create_order demo_config (publish_fails ''u1'' ''t1'') sample_order
                         empty_world))) (''ORDER#u1'', ''METADATA#t1'') =
     Some (order_item ''u1'' ''t1'' sample_order) \<and>
   calls (snd (create_order demo_config (publish_fails ''u1'' ''t1'') sample_order empty_world)) =
     [PutItem, PutEvents]"
proof -
  have k: "key_of (order_item ''u1'' ''t1'' sample_order) = Some (''ORDER#'' @ ''u1'', ''METADATA#'' @ ''t1'')"
    by (rule key_of_order_item) (simp_all add: sample_order_def)
  have p: "fst (put_item (publish_fails ''u1'' ''t1'')
             (order_item (uuid4 (publish_fails ''u1'' ''t1'')) (utcnow (publish_fails ''u1'' ''t1''))
                sample_order) empty_world) = Inr ()"
    using k by (simp add: put_item_def Let_def)
  have m: "eventbridge_exc (publish_fails ''u1'' ''t1'') = Some ''AccessDenied''" by simp
  from create_order_publish_failure_keeps_record [OF p m, of demo_config] k
  show ?thesis by simp
qed

section \<open>Listing orders\<close>

text \<open>
  C6. For every state of the store, the response of a successful
  \<open>list_orders\<close> has a \<open>count\<close> equal to the length of its \<open>orders\<close>.
\<close>

theorem list_orders_count:
  assumes "fst (list_orders cfg e w) = Inr r"
  shows "count r = length (orders r)"
  using assms
  by (auto simp: list_orders_def scan_def log_call_def Let_def split: option.splits)

theorem list_orders_count_witness:
  "fst (list_orders demo_config (quiet_env ''u3'' ''t3'')
          (snd (create_order demo_config (quiet_env ''u1'' ''t1'') sample_order empty_world))) =
     Inr \<lparr>orders = [order_item ''u1'' ''t1'' sample_order], count = 1\<rparr> \<and>
   count \<lparr>orders = [order_item ''u1'' ''t1'' sample_order], count = 1\<rparr> =
     length (orders \<lparr>orders = [order_item ''u1'' ''t1'' sample_order], count = 1\<rparr>)"
proof -
  have k: "key_of (order_item ''u1'' ''t1'' sample_order) = Some (''ORDER#'' @ ''u1'', ''METADATA#'' @ ''t1'')"
    by (rule key_of_order_item) (simp_all add: sample_order_def)
  have l: "fst (list_orders demo_config (quiet_env ''u3'' ''t3'')
          (snd (create_order demo_config (quiet_env ''u1'' ''t1'') sample_order empty_world))) =
     Inr \<lparr>orders = [order_item ''u1'' ''t1'' sample_order], count = 1\<rparr>"
    by (simp add: list_orders_def scan_def log_call_def Let_def create_order_quiet(2) [OF k])
  from l list_orders_count [OF l] show ?thesis by simp
qed

section \<open>Uploading a file\<close>

text \<open>
  C7. For every body: with an empty \<open>S3_BUCKET\<close>, \<open>upload_file\<close> answers
  500 and leaves the services as they were, with no call made; with a bucket
  configured and an object store that does not raise, it returns
  \<open>{file_key, bucket, timestamp}\<close> with a \<open>file_key\<close> that starts with
  \<open>uploads/\<close>, and the body is stored under that key with one call.
\<close>

theorem upload_file_unconfigured:
  "(S3_BUCKET cfg = [] \<longrightarrow>
      upload_file cfg e file_data w = (Inl (HTTPException 500 ''S3 bucket not configured''), w)) \<and>
   (S3_BUCKET cfg \<noteq> [] \<and> s3_exc e = None \<longrightarrow>
      (\<exists>name. fst (upload_file cfg e file_data w) =
                 Inr [(''file_key'', ''uploads/'' @ name), (''bucket'', S3_BUCKET cfg),
                      (''timestamp'', utcnow e)] \<and>
              map_of (objects (snd (upload_file cfg e file_data w)))
                (S3_BUCKET cfg, ''uploads/'' @ name) = Some (file_data, ''application/json'') \<and>
              calls (snd (upload_file cfg e file_data w)) = calls w @ [PutObject]))"
proof (intro conjI impI)
  assume "S3_BUCKET cfg = []"
  then show "upload_file cfg e file_data w =
               (Inl (HTTPException 500 ''S3 bucket not configured''), w)"
    by (simp add: upload_file_def)
next
  assume h: "S3_BUCKET cfg \<noteq> [] \<and> s3_exc e = None"
  define name where
    "name = uuid4 e @ ''-'' @
       (case file_data ''filename'' of None \<Rightarrow> ''file'' | Some v \<Rightarrow> py_str (repr e) v)"
  have u: "upload_file cfg e file_data w =
             (Inr [(''file_key'', ''uploads/'' @ name), (''bucket'', S3_BUCKET cfg),
                   (''timestamp'', utcnow e)],
              (log_call PutObject w)
                \<lparr>objects := store_put (S3_BUCKET cfg, ''uploads/'' @ name)
                               (file_data, ''application/json'') (objects w)\<rparr>)"
    using h by (simp add: upload_file_def put_object_def log_call_def Let_def name_def)
  have "fst (upload_file cfg e file_data w) =
          Inr [(''file_key'', ''uploads/'' @ name), (''bucket'', S3_BUCKET cfg),
               (''timestamp'', utcnow e)] \<and>
        map_of (objects (snd (upload_file cfg e file_data w)))
          (S3_BUCKET cfg, ''uploads/'' @ name) = Some (file_data, ''application/json'') \<and>
        calls (snd (upload_file cfg e file_data w)) = calls w @ [PutObject]"
    unfolding u by (simp add: map_of_store_put log_call_def)
  then show "\<exists>name. fst (upload_file cfg e file_data w) =
                 Inr [(''file_key'', ''uploads/'' @ name), (''bucket'', S3_BUCKET cfg),
                      (''timestamp'', utcnow e)] \<and>
              map_of (objects (snd (upload_file cfg e file_data w)))
                (S3_BUCKET cfg, ''uploads/'' @ name) = Some (file_data, ''application/json'') \<and>
              calls (snd (upload_file cfg e file_data w)) = calls w @ [PutObject]"
    by blast
qed

theorem upload_file_unconfigured_witness:
  "upload_file unconfigured (quiet_env ''u1'' ''t1'') [''filename'' \<mapsto> JStr ''a.txt''] empty_world =
     (Inl (HTTPException 500 ''S3 bucket not configured''), empty_world) \<and>
   fst (upload_file demo_config (quiet_env ''u1'' ''t1'') [''filename'' \<mapsto> JStr ''a.txt'']
          empty_world) =
     Inr [(''file_key'', ''uploads/u1-a.txt''), (''bucket'', ''demo-bucket''),
          (''timestamp'', ''t1'')]"
proof -
  have a: "upload_file unconfigured (quiet_env ''u1'' ''t1'') [''filename'' \<mapsto> JStr ''a.txt'']
             empty_world = (Inl (HTTPException 500 ''S3 bucket not configured''), empty_world)"
    using upload_file_unconfigured
            [of unconfigured "quiet_env ''u1'' ''t1''" "[''filename'' \<mapsto> JStr ''a.txt'']" empty_world]
    by simp
  have b: "fst (upload_file demo_config (quiet_env ''u1'' ''t1'') [''filename'' \<mapsto> JStr ''a.txt'']
          empty_world) =
     Inr [(''file_key'', ''uploads/u1-a.txt''), (''bucket'', ''demo-bucket''),
          (''timestamp'', ''t1'')]"
    by (simp add: upload_file_def put_object_def log_call_def Let_def)
  from a b show ?thesis by simp
qed

text \<open>
  A bucket is configured and the object store raises: the answer is a 500, not
  \<open>{file_key, bucket, timestamp}\<close>, and nothing is stored.
\<close>

theorem upload_file_configured_put_object_raises:
  "S3_BUCKET demo_config = ''demo-bucket'' \<and>
   fst (upload_file demo_config (upload_fails ''u1'' ''t1'') [''filename'' \<mapsto> JStr ''a.txt'']
          empty_world) =
     Inl (HTTPException 500 ''Failed to upload file: AccessDenied'') \<and>
   objects (snd (upload_file demo_config (upload_fails ''u1'' ''t1'')
                   [''filename'' \<mapsto> JStr ''a.txt''] empty_world)) = []"
  by (simp add: upload_file_def put_object_def log_call_def Let_def)

section \<open>Fresh order ids\<close>

text \<open>
  A sequence of requests gets one response each, and a successful response is
  the one built from the identifier and the timestamp its request has drawn.
\<close>

lemma create_orders_length: "length (fst (create_orders cfg reqs w)) = length reqs"
proof (induction reqs arbitrary: w)
  case Nil
  then show ?case by simp
next
  case (Cons q reqs)
  obtain e order where q: "q = (e, order)" by (cases q)
  obtain r w1 where c: "create_order cfg e order w = (r, w1)" by (cases "create_order cfg e order w")
  obtain rs w2 where cs: "create_orders cfg reqs w1 = (rs, w2)" by (cases "create_orders cfg reqs w1")
  from Cons.IH [of w1] cs have "length rs = length reqs" by simp
  with q c cs show ?case by simp
qed

lemma create_orders_nth:
  assumes "i < length reqs" and "fst (create_orders cfg reqs w) ! i = Inr resp"
  shows "resp = [(''order_id'', uuid4 (fst (reqs ! i))), (''status'', ''created''),
                 (''timestamp'', utcnow (fst (reqs ! i)))]"
  using assms
proof (induction reqs arbitrary: w i)
  case Nil
  then show ?case by simp
next
  case (Cons q reqs)
  obtain e order where q: "q = (e, order)" by (cases q)
  obtain r w1 where c: "create_order cfg e order w = (r, w1)" by (cases "create_order cfg e order w")
  obtain rs w2 where cs: "create_orders cfg reqs w1 = (rs, w2)" by (cases "create_orders cfg reqs w1")
  show ?case
  proof (cases i)
    case 0
    with Cons.prems q c cs have "r = Inr resp" by simp
    with c have "resp = [(''order_id'', uuid4 e), (''status'', ''created''), (''timestamp'', utcnow e)]"
      using create_order_success by blast
    with 0 q show ?thesis by simp
  next
    case (Suc j)
    with Cons.prems q c cs have "j < length reqs" and "fst (create_orders cfg reqs w1) ! j = Inr resp"
      by simp_all
    then have "resp = [(''order_id'', uuid4 (fst (reqs ! j))), (''status'', ''created''),
                 (''timestamp'', utcnow (fst (reqs ! j)))]"
      by (rule Cons.IH)
    with Suc show ?thesis by simp
  qed
qed

text \<open>
  Every id read from the responses is an identifier drawn by one of the requests;
  no response is passed over when each successful one carries an id.
\<close>

lemma returned_ids_subset:
  "set (returned_ids (fst (create_orders cfg reqs w))) \<subseteq> set (map (\<lambda>r. uuid4 (fst r)) reqs)"
proof (induction reqs arbitrary: w)
  case Nil
  then show ?case by simp
next
  case (Cons q reqs)
  obtain e order where q: "q = (e, order)" by (cases q)
  obtain r w1 where c: "create_order cfg e order w = (r, w1)" by (cases "create_order cfg e order w")
  obtain rs w2 where cs: "create_orders cfg reqs w1 = (rs, w2)" by (cases "create_orders cfg reqs w1")
  have ih: "set (returned_ids rs) \<subseteq> set (map (\<lambda>r. uuid4 (fst r)) reqs)"
    using Cons.IH [of w1] cs by simp
  show ?case
  proof (cases r)
    case (Inl x)
    with q c cs ih show ?thesis by auto
  next
    case (Inr resp)
    with c have "resp = [(''order_id'', uuid4 e), (''status'', ''created''), (''timestamp'', utcnow e)]"
      using create_order_success by blast
    with Inr q c cs ih show ?thesis by auto
  qed
qed

lemma returned_ids_length_aux:
  assumes "\<forall>r \<in> set rs. \<forall>resp. r = Inr resp \<longrightarrow> map_of resp ''order_id'' \<noteq> None"
  shows "length (returned_ids rs) = length (filter (\<lambda>r. \<not> isl r) rs)"
  using assms
proof (induction rs)
  case Nil
  then show ?case by simp
next
  case (Cons r rs)
  then show ?case by (cases r) (auto split: option.splits)
qed

lemma returned_ids_distinct:
  assumes "distinct (map (\<lambda>r. uuid4 (fst r)) reqs)"
  shows "distinct (returned_ids (fst (create_orders cfg reqs w)))"
  using assms
proof (induction reqs arbitrary: w)
  case Nil
  then show ?case by simp
next
  case (Cons q reqs)
  obtain e order where q: "q = (e, order)" by (cases q)
  obtain r w1 where c: "create_order cfg e order w = (r, w1)" by (cases "create_order cfg e order w")
  obtain rs w2 where cs: "create_orders cfg reqs w1 = (rs, w2)" by (cases "create_orders cfg reqs w1")
  from Cons.prems q have d: "distinct (map (\<lambda>r. uuid4 (fst r)) reqs)"
    and n: "uuid4 e \<notin> set (map (\<lambda>r. uuid4 (fst r)) reqs)" by simp_all
  have ih: "distinct (returned_ids rs)" using Cons.IH [OF d, of w1] cs by simp
  have sub: "set (returned_ids rs) \<subseteq> set (map (\<lambda>r. uuid4 (fst r)) reqs)"
    using returned_ids_subset [of cfg reqs w1] cs by simp
  show ?case
  proof (cases r)
    case (Inl x)
    with q c cs ih show ?thesis by simp
  next
    case (Inr resp)
    with c have "resp = [(''order_id'', uuid4 e), (''status'', ''created''), (''timestamp'', utcnow e)]"
      using create_order_success by blast
    with Inr q c cs ih sub n show ?thesis by auto
  qed
qed

text \<open>
  The three requests of the example: the second one fails at the publish and
  returns no id.
\<close>

lemma returned_ids_example:
  "returned_ids (fst (create_orders demo_config
      [(quiet_env ''u1'' ''t1'', sample_order), (publish_fails ''u2'' ''t1'', sample_order),
       (quiet_env ''u3'' ''t1'', shipped_order)] empty_world)) = [''u1'', ''u3'']"
  by (simp add: create_order_def put_item_def put_events_def log_call_def Let_def
        key_of_order_item sample_order_def shipped_order_def split: prod.splits)

text \<open>
  C8. When the identifiers drawn by a sequence of \<open>create_order\<close> requests are
  pairwise distinct: every request gets a response, every successful response
  carries as \<open>order_id\<close> the identifier its request has drawn, and that id differs
  from the id of every successful response before it. So the ids read from the
  responses are as many as the successful responses and pairwise distinct. The store
  is not consulted.
\<close>

theorem create_order_ids_fresh:
  assumes "distinct (map (\<lambda>r. uuid4 (fst r)) reqs)"
  shows "length (fst (create_orders cfg reqs w)) = length reqs \<and>
         (\<forall>i < length reqs. \<forall>resp. fst (create_orders cfg reqs w) ! i = Inr resp \<longrightarrow>
            map_of resp ''order_id'' = Some (uuid4 (fst (reqs ! i))) \<and>
            (\<forall>j < i. \<forall>prev. fst (create_orders cfg reqs w) ! j = Inr prev \<longrightarrow>
               map_of prev ''order_id'' \<noteq> map_of resp ''order_id'')) \<and>
         length (returned_ids (fst (create_orders cfg reqs w))) =
           length (filter (\<lambda>r. \<not> isl r) (fst (create_orders cfg reqs w))) \<and>
         distinct (returned_ids (fst (create_orders cfg reqs w)))"
proof -
  let ?rs = "fst (create_orders cfg reqs w)"
  have len: "length ?rs = length reqs" by (rule create_orders_length)
  have id: "map_of resp ''order_id'' = Some (uuid4 (fst (reqs ! i)))"
    if "i < length reqs" and "?rs ! i = Inr resp" for i resp
    using create_orders_nth [OF that] by simp
  have fresh: "map_of prev ''order_id'' \<noteq> map_of resp ''order_id''"
    if "i < length reqs" and "?rs ! i = Inr resp" and "j < i" and "?rs ! j = Inr prev"
    for i j resp prev
  proof -
    from that have j: "j < length reqs" by simp
    have "uuid4 (fst (reqs ! j)) \<noteq> uuid4 (fst (reqs ! i))"
      using assms that(1,3) j by (simp add: distinct_conv_nth)
    with id [OF that(1,2)] id [OF j that(4)] show ?thesis by simp
  qed
  have all: "\<forall>r \<in> set ?rs. \<forall>resp. r = Inr resp \<longrightarrow> map_of resp ''order_id'' \<noteq> None"
  proof (intro ballI allI impI)
    fix r resp
    assume "r \<in> set ?rs" and r: "r = Inr resp"
    then obtain i where "i < length ?rs" and "?rs ! i = r" by (auto simp: in_set_conv_nth)
    with len r id [of i resp] show "map_of resp ''order_id'' \<noteq> None" by simp
  qed
  have cnt: "length (returned_ids ?rs) = length (filter (\<lambda>r. \<not> isl r) ?rs)"
    using all by (rule returned_ids_length_aux)
  have dist: "distinct (returned_ids ?rs)" using assms by (rule returned_ids_distinct)
  from len id fresh cnt dist show ?thesis by blast
qed

theorem create_order_ids_fresh_witness:
  "distinct (map (\<lambda>r. uuid4 (fst r))
      [(quiet_env ''u1'' ''t1'', sample_order), (publish_fails ''u2'' ''t1'', sample_order),
       (quiet_env ''u3'' ''t1'', shipped_order)]) \<and>
   returned_ids (fst (create_orders demo_config
      [(quiet_env ''u1'' ''t1'', sample_order), (publish_fails ''u2'' ''t1'', sample_order),
       (quiet_env ''u3'' ''t1'', shipped_order)] empty_world)) = [''u1'', ''u3''] \<and>
   distinct (returned_ids (fst (create_orders demo_config
      [(quiet_env ''u1'' ''t1'', sample_order), (publish_fails ''u2'' ''t1'', sample_order),
       (quiet_env ''u3'' ''t1'', shipped_order)] empty_world)))"
proof -
  have d: "distinct (map (\<lambda>r. uuid4 (fst r))
      [(quiet_env ''u1'' ''t1'', sample_order), (publish_fails ''u2'' ''t1'', sample_order),
       (quiet_env ''u3'' ''t1'', shipped_order)])"
    by simp
  from create_order_ids_fresh [OF d, of demo_config empty_world]
  have "distinct (returned_ids (fst (create_orders demo_config
      [(quiet_env ''u1'' ''t1'', sample_order), (publish_fails ''u2'' ''t1'', sample_order),
       (quiet_env ''u3'' ''t1'', shipped_order)] empty_world)))"
    by blast
  with d returned_ids_example show ?thesis by simp
qed

section \<open>An empty status string\<close>

text \<open>
  C9. For every order id, a body whose status is the empty string is answered 400,
  with the services untouched, exactly as the same body without the status field.
\<close>

theorem update_status_empty_string_is_400:
  assumes "status_data ''status'' = Some ''''"
  shows "update_order_status cfg e order_id status_data w =
           (Inl (HTTPException 400 ''Status is required''), w) \<and>
         update_order_status cfg e order_id status_data w =
           update_order_status cfg e order_id (status_data(''status'' := None)) w"
  using assms by (simp add: update_order_status_def)

theorem update_status_empty_string_is_400_witness:
  "update_order_status demo_config (quiet_env ''u2'' ''t2'') ''u1'' [''status'' \<mapsto> ''''] empty_world =
     (Inl (HTTPException 400 ''Status is required''), empty_world)"
  using update_status_empty_string_is_400
          [of "[''status'' \<mapsto> '''']" demo_config "quiet_env ''u2'' ''t2''" "''u1''" empty_world]
  by simp

section \<open>Updating an order that does not exist\<close>

text \<open>
  C10. \<open>update_order_status\<close> never answers 404. For every order id with no
  item in its partition and every status that is not empty, when neither service
  call raises, it succeeds with \<open>{order_id, status, timestamp}\<close> and adds one item
  to the table, under the key (\<open>ORDER#id\<close>, \<open>METADATA#now\<close>), made of the
  two key attributes, the status and \<open>updated_at\<close>.
\<close>

theorem update_status_of_unknown_order_upserts:
  "(\<forall>d. fst (update_order_status cfg e order_id status_data w) \<noteq> Inl (HTTPException 404 d)) \<and>
   ((\<forall>r \<in> set (table w). fst (fst r) \<noteq> ''ORDER#'' @ order_id) \<and>
    status_data ''status'' = Some s \<and> s \<noteq> [] \<and>
    dynamodb_exc e = None \<and> eventbridge_exc e = None \<longrightarrow>
      fst (update_order_status cfg e order_id status_data w) =
        Inr [(''order_id'', order_id), (''status'', s), (''timestamp'', utcnow e)] \<and>
      table (snd (update_order_status cfg e order_id status_data w)) =
        table w @ [((''ORDER#'' @ order_id, ''METADATA#'' @ utcnow e),
                    [''pk'' \<mapsto> JStr (''ORDER#'' @ order_id),
                     ''sk'' \<mapsto> JStr (''METADATA#'' @ utcnow e),
                     ''status'' \<mapsto> JStr s,
                     ''updated_at'' \<mapsto> JStr (utcnow e)])])"
proof -
  let ?k = "(''ORDER#'' @ order_id, ''METADATA#'' @ utcnow e)"
  have a: "\<forall>d. fst (update_order_status cfg e order_id status_data w) \<noteq> Inl (HTTPException 404 d)"
    by (simp add: update_order_status_def update_item_def put_events_def log_call_def Let_def
          split: option.splits)
  have b: "(\<forall>r \<in> set (table w). fst (fst r) \<noteq> ''ORDER#'' @ order_id) \<and>
    status_data ''status'' = Some s \<and> s \<noteq> [] \<and>
    dynamodb_exc e = None \<and> eventbridge_exc e = None \<longrightarrow>
      fst (update_order_status cfg e order_id status_data w) =
        Inr [(''order_id'', order_id), (''status'', s), (''timestamp'', utcnow e)] \<and>
      table (snd (update_order_status cfg e order_id status_data w)) =
        table w @ [(?k, [''pk'' \<mapsto> JStr (''ORDER#'' @ order_id),
                     ''sk'' \<mapsto> JStr (''METADATA#'' @ utcnow e),
                     ''status'' \<mapsto> JStr s,
                     ''updated_at'' \<mapsto> JStr (utcnow e)])]"
  proof (intro impI, elim conjE)
    assume f: "\<forall>r \<in> set (table w). fst (fst r) \<noteq> ''ORDER#'' @ order_id"
      and h: "status_data ''status'' = Some s" "s \<noteq> []" "dynamodb_exc e = None"
        "eventbridge_exc e = None"
    from f have nk: "?k \<notin> fst ` set (table w)" by force
    then have n: "map_of (table w) ?k = None" by (simp add: map_of_eq_None_iff)
    note r = update_order_status_response
               [where status_data = status_data and s = s and e = e and cfg = cfg
                  and order_id = order_id and w = w, OF h]
    note t = update_order_status_table
               [where status_data = status_data and s = s and e = e and cfg = cfg
                  and order_id = order_id and w = w, OF h(1-3)]
    have "table (snd (update_order_status cfg e order_id status_data w)) =
        table w @ [(?k, [''pk'' \<mapsto> JStr (''ORDER#'' @ order_id),
                     ''sk'' \<mapsto> JStr (''METADATA#'' @ utcnow e),
                     ''status'' \<mapsto> JStr s,
                     ''updated_at'' \<mapsto> JStr (utcnow e)])]"
      unfolding t using n nk by (simp add: store_put_fresh)
    with r(1) show "fst (update_order_status cfg e order_id status_data w) =
        Inr [(''order_id'', order_id), (''status'', s), (''timestamp'', utcnow e)] \<and>
      table (snd (update_order_status cfg e order_id status_data w)) =
        table w @ [(?k, [''pk'' \<mapsto> JStr (''ORDER#'' @ order_id),
                     ''sk'' \<mapsto> JStr (''METADATA#'' @ utcnow e),
                     ''status'' \<mapsto> JStr s,
                     ''updated_at'' \<mapsto> JStr (utcnow e)])]"
      by simp
  qed
  from a b show ?thesis by blast
qed

theorem update_status_of_unknown_order_upserts_witness:
  "fst (update_order_status demo_config (quiet_env ''u2'' ''t2'') ''ghost''
          [''status'' \<mapsto> ''shipped''] empty_world) =
     Inr [(''order_id'', ''ghost''), (''status'', ''shipped''), (''timestamp'', ''t2'')] \<and>
   map (fst) (table (snd (update_order_status demo_config (quiet_env ''u2'' ''t2'') ''ghost''
          [''status'' \<mapsto> ''shipped''] empty_world))) = [(''ORDER#ghost'', ''METADATA#t2'')]"
  using update_status_of_unknown_order_upserts
          [of demo_config "quiet_env ''u2'' ''t2''" "''ghost''" "[''status'' \<mapsto> ''shipped'']"
              empty_world "''shipped''"]
  by simp

text \<open>
  No item is stored for the order and the status is not empty, but the store
  raises: the answer is a 500 and no item is added.
\<close>

theorem update_status_of_unknown_order_store_raises:
  "table empty_world = [] \<and>
   fst (update_order_status demo_config (store_fails ''u2'' ''t2'') ''ghost''
          [''status'' \<mapsto> ''shipped''] empty_world) =
     Inl (HTTPException 500 ''Failed to update order: ServiceUnavailable'') \<and>
   table (snd (update_order_status demo_config (store_fails ''u2'' ''t2'') ''ghost''
                 [''status'' \<mapsto> ''shipped''] empty_world)) = []"
  by (simp add: update_order_status_def update_item_def log_call_def Let_def)

end
